theory Spec2Isabelle
  imports Complex_Main "HOL-Library.AList"
begin

section \<open>Python strings\<close>

text \<open>
  The engine works on Python \<^verbatim>\<open>str\<close> values. They are modelled as \<^typ>\<open>string\<close>,
  read as ASCII text: case tests and case conversion act on the letters A-Z and a-z,
  every other character is uncased.
\<close>

datatype py_error = ZeroDivisionError

definition c_isupper :: "char \<Rightarrow> bool" where
  "c_isupper c = (65 \<le> (of_char c :: nat) \<and> (of_char c :: nat) \<le> 90)"

definition c_islower :: "char \<Rightarrow> bool" where
  "c_islower c = (97 \<le> (of_char c :: nat) \<and> (of_char c :: nat) \<le> 122)"

definition c_lower :: "char \<Rightarrow> char" where
  "c_lower c = (if c_isupper c then char_of ((of_char c :: nat) + 32) else c)"

text \<open>\<^verbatim>\<open>str.isspace\<close> on ASCII: tab, LF, VT, FF, CR, FS, GS, RS, US and the blank.\<close>

definition c_isspace :: "char \<Rightarrow> bool" where
  "c_isspace c = ((9 \<le> (of_char c :: nat) \<and> (of_char c :: nat) \<le> 13)
                 \<or> (28 \<le> (of_char c :: nat) \<and> (of_char c :: nat) \<le> 32))"

definition str_lower :: "string \<Rightarrow> string" where
  "str_lower s = map c_lower s"

text \<open>\<^verbatim>\<open>s.isupper()\<close>: at least one cased character and no lower-case one.\<close>

definition str_isupper :: "string \<Rightarrow> bool" where
  "str_isupper s = (list_ex c_isupper s \<and> \<not> list_ex c_islower s)"

fun startswith :: "string \<Rightarrow> string \<Rightarrow> bool" where
  "startswith s [] = True"
| "startswith [] (p # ps) = False"
| "startswith (c # cs) (p # ps) = (c = p \<and> startswith cs ps)"

text \<open>\<^verbatim>\<open>sub in s\<close>.\<close>

fun str_in :: "string \<Rightarrow> string \<Rightarrow> bool" where
  "str_in sub [] = (sub = [])"
| "str_in sub (c # cs) = (startswith (c # cs) sub \<or> str_in sub cs)"

text \<open>
  \<^verbatim>\<open>s.count(sub)\<close>: the occurrences are counted from the left and do not overlap. The
  first argument of \<open>count_from\<close> is the number of characters still covered by the
  occurrence found last.
\<close>

fun count_from :: "nat \<Rightarrow> string \<Rightarrow> string \<Rightarrow> nat" where
  "count_from k sub [] = 0"
| "count_from (Suc k) sub (c # cs) = count_from k sub cs"
| "count_from 0 sub (c # cs) =
     (if startswith (c # cs) sub then Suc (count_from (length sub - 1) sub cs)
      else count_from 0 sub cs)"

definition str_count :: "string \<Rightarrow> string \<Rightarrow> nat" where
  "str_count s sub = (if sub = [] then Suc (length s) else count_from 0 sub s)"

text \<open>\<^verbatim>\<open>s.split()\<close>: the maximal runs of characters that are not white space.\<close>

fun split_acc :: "string \<Rightarrow> string \<Rightarrow> string list" where
  "split_acc w [] = (if w = [] then [] else [w])"
| "split_acc w (c # cs) =
     (if c_isspace c then (if w = [] then split_acc [] cs else w # split_acc [] cs)
      else split_acc (w @ [c]) cs)"

definition str_split :: "string \<Rightarrow> string list" where
  "str_split s = split_acc [] s"

section \<open>Spam score (emailer.py, check_spam_score)\<close>

text \<open>
  The score is a sum of the terms 2, 3, 1.5, 1, -1 and -0.5, which binary floating point
  represents exactly, so it is a rational number here. The capital ratio is the quotient
  of two lengths; the source divides before it tests the ratio, and Python raises
  \<^verbatim>\<open>ZeroDivisionError\<close> on a zero divisor.
\<close>

definition caps_ratio :: "string \<Rightarrow> py_error + rat" where
  "caps_ratio body =
     (if length body = 0 then Inl ZeroDivisionError
      else Inr (of_nat (length (filter c_isupper body)) / of_nat (length body)))"

definition spam_words :: "string list" where
  "spam_words = [''free'', ''guarantee'', ''urgent'']"

definition spam_phrases :: "string list" where
  "spam_phrases = [''click here'', ''act now'', ''limited time'', ''risk free'']"

definition subject_checks :: "string \<Rightarrow> rat" where
  "subject_checks subject =
     (let subject_lower = str_lower subject;
          score = 0;
          score = (if length subject > 100 then score + 2 else score);
          score = (if str_isupper subject then score + 3 else score);
          score = (if list_ex (\<lambda>spam_word. str_in spam_word subject_lower) spam_words
                   then score + 2 else score)
      in score)"

definition body_checks :: "rat \<Rightarrow> rat \<Rightarrow> string \<Rightarrow> rat" where
  "body_checks score ratio body =
     (let body_lower = str_lower body;
          score = (if ratio > 3 / 10 then score + 2 else score);
          score = fold (\<lambda>phrase s. if str_in phrase body_lower then s + 3 / 2 else s)
                    spam_phrases score;
          link_count = str_count body_lower ''http'';
          score = (if link_count > 3 then score + 2 else score);
          score = (if str_count body_lower ''!'' > 3 then score + 1 else score);
          score = (if str_count body_lower ''$'' > 2 then score + 2 else score);
          score = (if str_in ''unsubscribe'' body_lower then score - 1 else score);
          score = (if length (str_split body) > 50 \<and> length (str_split body) < 300
                   then score - 1 / 2 else score)
      in max 0 score)"

definition check_spam_score :: "string \<Rightarrow> string \<Rightarrow> py_error + rat" where
  "check_spam_score subject body =
     (let score = subject_checks subject
      in case caps_ratio body of
           Inl e \<Rightarrow> Inl e
         | Inr ratio \<Rightarrow> Inr (body_checks score ratio body))"

section \<open>Story score (scoring.py, mock_storyscore and calculate_storyscore)\<close>



section \<open>Delivery queue (emailer.py)\<close>

text \<open>
  The two JSON files hold a dictionary from user id to a list of message records. A
  dictionary is an association list in insertion order, as Python dictionaries are:
  \<^const>\<open>AList.update\<close> replaces the value of a key in place and puts a new key last.
  Times are counted in microseconds, the resolution of \<^verbatim>\<open>datetime\<close>; a time written with
  \<^verbatim>\<open>isoformat\<close> and read back with \<^verbatim>\<open>fromisoformat\<close> is the same time, so records hold
  the time itself.
\<close>

type_synonym 'v dict = "(string \<times> 'v) list"

datatype status = Queued | Sent | Failed

record email =
  email_id :: string
  prospect_id :: string
  email_subject :: string
  email_body :: string
  storyscore :: int
  queued_at :: int
  status :: status
  attempts :: nat
  scheduled_for :: int
  sent_at :: "int option"

record store =
  email_queue :: "email list dict"
  email_history :: "email list dict"

definition minutes :: "int \<Rightarrow> int" where
  "minutes m = m * 60000000"

definition hours :: "int \<Rightarrow> int" where
  "hours h = h * 3600000000"

definition dict_get :: "'v list dict \<Rightarrow> string \<Rightarrow> 'v list" where
  "dict_get d k = (case map_of d k of None \<Rightarrow> [] | Some v \<Rightarrow> v)"

text \<open>
  \<^verbatim>\<open>hashlib.md5(...).hexdigest()\<close> and \<^verbatim>\<open>datetime.isoformat()\<close> are library functions
  and are parameters of the model.
\<close>

record library =
  md5_hexdigest :: "string \<Rightarrow> string"
  isoformat :: "int \<Rightarrow> string"

text \<open>
  One call of \<^verbatim>\<open>queue_email\<close> reads the clock three times (for the id, for
  \<^verbatim>\<open>queued_at\<close> and for \<^verbatim>\<open>scheduled_for\<close>) and draws one random number.
  \<^verbatim>\<open>random.randint(a, b)\<close> is an integer between \<open>a\<close> and \<open>b\<close>, both included; it is
  computed from the raw draw.
\<close>

record readings =
  now_id :: int
  now_queued :: int
  now_scheduled :: int
  draw :: int

definition randint :: "int \<Rightarrow> int \<Rightarrow> int \<Rightarrow> int" where
  "randint a b r = a + r mod (b - a + 1)"

definition new_email_id :: "library \<Rightarrow> readings \<Rightarrow> string \<Rightarrow> string \<Rightarrow> string" where
  "new_email_id lib rd user_id prospect =
     take 8 (md5_hexdigest lib (user_id @ prospect @ isoformat lib (now_id rd)))"

definition email_entry ::
  "readings \<Rightarrow> string \<Rightarrow> string \<Rightarrow> string \<Rightarrow> string \<Rightarrow> int \<Rightarrow> email" where
  "email_entry rd new_id prospect subj bod score =
     \<lparr> email_id = new_id,
       prospect_id = prospect,
       email_subject = subj,
       email_body = bod,
       storyscore = score,
       queued_at = now_queued rd,
       status = Queued,
       attempts = 0,
       scheduled_for = now_scheduled rd + minutes (randint 5 30 (draw rd)),
       sent_at = None \<rparr>"

definition queue_email ::
  "library \<Rightarrow> readings \<Rightarrow> store \<Rightarrow> string \<Rightarrow> string \<Rightarrow> string \<Rightarrow> string \<Rightarrow> int
     \<Rightarrow> string \<times> store" where
  "queue_email lib rd db user_id prospect subj bod score =
     (let queue = email_queue db;
          queue = (if map_of queue user_id = None then AList.update user_id [] queue
                   else queue);
          new_id = new_email_id lib rd user_id prospect;
          entry = email_entry rd new_id prospect subj bod score;
          queue = AList.update user_id (dict_get queue user_id @ [entry]) queue
      in (new_id, db\<lparr>email_queue := queue\<rparr>))"

text \<open>
  The transport of \<^verbatim>\<open>_send_email\<close>: with no SMTP user configured the send is a mock and
  succeeds; otherwise the outcome of the SMTP session decides, \<open>smtp_send n\<close> for the
  \<open>n\<close>-th send of a sweep (\<open>False\<close> where the session raises). \<open>pause_draw n\<close> is the raw
  draw of the \<open>n\<close>-th \<^verbatim>\<open>random.uniform(45, 90)\<close>, the pause after a successful send.
\<close>

record world =
  smtp_user :: string
  smtp_send :: "nat \<Rightarrow> bool"
  pause_draw :: "nat \<Rightarrow> int"

definition send_email_smtp :: "world \<Rightarrow> nat \<Rightarrow> bool" where
  "send_email_smtp w n = (if smtp_user w = [] then True else smtp_send w n)"

definition uniform_pause :: "int \<Rightarrow> int" where
  "uniform_pause r = 45000000 + r mod 45000001"

text \<open>
  The running state of a sweep: the wall clock (advanced by \<^verbatim>\<open>time.sleep\<close>), the number
  of sends tried so far, the counter \<^verbatim>\<open>emails_sent\<close> and the history dictionary.
\<close>

record sweep =
  clock :: int
  calls :: nat
  emails_sent :: nat
  history :: "email list dict"

text \<open>The body of the inner loop of \<^verbatim>\<open>process_queue\<close>, for one record of one user.\<close>

definition process_email ::
  "world \<Rightarrow> int \<Rightarrow> string \<Rightarrow> sweep \<Rightarrow> email \<Rightarrow> sweep \<times> email" where
  "process_email w current_time user_id s e =
     (if status e \<noteq> Queued then (s, e)
      else if scheduled_for e \<le> current_time then
        (if send_email_smtp w (calls s) then
           (let e1 = e\<lparr>status := Sent, sent_at := Some current_time\<rparr>;
                hist = (if map_of (history s) user_id = None
                        then AList.update user_id [] (history s) else history s);
                hist = AList.update user_id (dict_get hist user_id @ [e1]) hist
            in (s\<lparr>clock := clock s + uniform_pause (pause_draw w (emails_sent s)),
                   calls := Suc (calls s),
                   emails_sent := Suc (emails_sent s),
                   history := hist\<rparr>, e1))
         else
           (let e1 = e\<lparr>attempts := attempts e + 1\<rparr>
            in (s\<lparr>calls := Suc (calls s)\<rparr>,
                if attempts e1 \<ge> 3 then e1\<lparr>status := Failed\<rparr>
                else e1\<lparr>scheduled_for := current_time + hours 1\<rparr>)))
      else (s, e))"

fun process_user_queue ::
  "world \<Rightarrow> int \<Rightarrow> string \<Rightarrow> sweep \<Rightarrow> email list \<Rightarrow> sweep \<times> email list" where
  "process_user_queue w current_time user_id s [] = (s, [])"
| "process_user_queue w current_time user_id s (e # es) =
     (case process_email w current_time user_id s e of
        (s1, e1) \<Rightarrow>
          (case process_user_queue w current_time user_id s1 es of
             (s2, es1) \<Rightarrow> (s2, e1 # es1)))"

fun process_users ::
  "world \<Rightarrow> int \<Rightarrow> sweep \<Rightarrow> email list dict \<Rightarrow> sweep \<times> email list dict" where
  "process_users w current_time s [] = (s, [])"
| "process_users w current_time s ((user_id, user_queue) # rest) =
     (case process_user_queue w current_time user_id s user_queue of
        (s1, user_queue1) \<Rightarrow>
          (case process_users w current_time s1 rest of
             (s2, rest1) \<Rightarrow> (s2, (user_id, user_queue1) # rest1)))"

definition clean_up :: "email list dict \<Rightarrow> email list dict" where
  "clean_up queue =
     map (\<lambda>(user_id, user_queue).
            (user_id, filter (\<lambda>e. status e \<noteq> Sent \<and> status e \<noteq> Failed) user_queue))
         queue"

text \<open>
  \<^verbatim>\<open>process_queue\<close>: \<open>now\<close> is the clock when the sweep starts, read once into
  \<^verbatim>\<open>current_time\<close>. The result is the number of messages sent and the two stores as
  they are saved.
\<close>

definition process_queue :: "world \<Rightarrow> int \<Rightarrow> store \<Rightarrow> nat \<times> store" where
  "process_queue w now db =
     (let current_time = now;
          start = \<lparr> clock = now, calls = 0, emails_sent = 0, history = email_history db \<rparr>
      in case process_users w current_time start (email_queue db) of
           (s, queue) \<Rightarrow>
             (emails_sent s, \<lparr> email_queue = clean_up queue, email_history = history s \<rparr>))"

section \<open>The gate (main.py, send_email)\<close>



section \<open>The life of one message\<close>

text \<open>
  A send is tried and fails when the record is queued and due and the transport reports
  a failure. A visit is one execution of the loop body on the record: the transport, the
  sweep's \<^verbatim>\<open>current_time\<close>, the user and the sweep's running state. \<open>deliver\<close> is the
  record after a series of visits, \<open>failed_sends\<close> the number of sends that failed on
  the way.
\<close>

definition send_fails :: "world \<Rightarrow> int \<Rightarrow> sweep \<Rightarrow> email \<Rightarrow> bool" where
  "send_fails w current_time s e =
     (status e = Queued \<and> scheduled_for e \<le> current_time \<and> \<not> send_email_smtp w (calls s))"

type_synonym visit = "world \<times> int \<times> string \<times> sweep"

fun deliver :: "visit list \<Rightarrow> email \<Rightarrow> email" where
  "deliver [] e = e"
| "deliver ((w, current_time, user_id, s) # vs) e =
     deliver vs (snd (process_email w current_time user_id s e))"

fun failed_sends :: "visit list \<Rightarrow> email \<Rightarrow> nat" where
  "failed_sends [] e = 0"
| "failed_sends ((w, current_time, user_id, s) # vs) e =
     (if send_fails w current_time s e then 1 else 0)
       + failed_sends vs (snd (process_email w current_time user_id s e))"

section \<open>Template expansion (emailer.py, process_spintax)\<close>

text \<open>
  \<^verbatim>\<open>text.replace(old, new)\<close> replaces the occurrences of \<open>old\<close> from the left, without
  overlap, and does not look into what it has put in. The first argument of
  \<open>replace_from\<close> counts the characters of the occurrence found last that are still to
  be skipped. With an empty \<open>old\<close>, Python puts \<open>new\<close> before every character and at
  the end.
\<close>

fun replace_from :: "nat \<Rightarrow> string \<Rightarrow> string \<Rightarrow> string \<Rightarrow> string" where
  "replace_from k old new [] = []"
| "replace_from (Suc k) old new (c # cs) = replace_from k old new cs"
| "replace_from 0 old new (c # cs) =
     (if startswith (c # cs) old then new @ replace_from (length old - 1) old new cs
      else c # replace_from 0 old new cs)"

definition str_replace :: "string \<Rightarrow> string \<Rightarrow> string \<Rightarrow> string" where
  "str_replace s old new =
     (if old = [] then new @ concat (map (\<lambda>c. c # new) s) else replace_from 0 old new s)"

text \<open>The token \<^verbatim>\<open>f'{{{key}}}'\<close> of a variable: its name in braces.\<close>

definition token :: "string \<Rightarrow> string" where
  "token key = ''{'' @ key @ ''}''"

text \<open>
  \<^verbatim>\<open>sep.join(segments)\<close>: a pattern in which a token occurs is the segments between
  its occurrences joined by the token.
\<close>

fun join :: "string \<Rightarrow> string list \<Rightarrow> string" where
  "join sep [] = []"
| "join sep [s] = s"
| "join sep (s # t # ss) = s @ sep @ join sep (t # ss)"

text \<open>
  The first stage: the loop over \<^verbatim>\<open>variables.items()\<close>, in the order of the dictionary.
  \<open>None\<close> and the empty dictionary are both false for \<^verbatim>\<open>if variables:\<close>. The values
  are strings, so \<^verbatim>\<open>str(value)\<close> is the value.
\<close>

definition replace_variables :: "(string \<times> string) list option \<Rightarrow> string \<Rightarrow> string" where
  "replace_variables variables text =
     (case variables of
        None \<Rightarrow> text
      | Some items \<Rightarrow>
          (if items = [] then text
           else fold (\<lambda>(key, v) t. str_replace t (token key) v) items text))"

text \<open>
  The regular expression \<^verbatim>\<open>\{([^{}]+\|[^{}]+)\}\<close> at the start of a string: an opening
  brace, the run of all characters up to the next brace, which has to be a closing one,
  and in the run a bar that is neither its first nor its last character. \<open>match_group\<close>
  gives group 1, the run; the match is the run and the two braces.
\<close>

definition is_brace :: "char \<Rightarrow> bool" where
  "is_brace c = (c = CHR ''{'' \<or> c = CHR ''}'')"

definition match_group :: "string \<Rightarrow> string option" where
  "match_group s =
     (case s of
        [] \<Rightarrow> None
      | c # cs \<Rightarrow>
          (if c = CHR ''{'' then
             (let run = takeWhile (\<lambda>x. \<not> is_brace x) cs
              in case dropWhile (\<lambda>x. \<not> is_brace x) cs of
                   [] \<Rightarrow> None
                 | r # rs \<Rightarrow>
                     (if r = CHR ''}'' \<and> list_ex (\<lambda>x. x = CHR ''|'') (butlast (tl run))
                      then Some run else None))
           else None))"

text \<open>\<^verbatim>\<open>s.split('|')\<close>: the pieces between the bars, empty ones included.\<close>

fun split_on :: "char \<Rightarrow> string \<Rightarrow> string list" where
  "split_on sep [] = [[]]"
| "split_on sep (c # cs) =
     (if c = sep then [] # split_on sep cs
      else (case split_on sep cs of
              [] \<Rightarrow> [[c]]
            | piece # pieces \<Rightarrow> (c # piece) # pieces))"

text \<open>
  \<^verbatim>\<open>random.choice(options)\<close> picks one element; the raw draw \<open>r\<close> decides which. The
  random source is a sequence of raw draws, \<open>rnd n\<close> being the \<open>n\<close>-th.
\<close>

definition choice :: "nat \<Rightarrow> string list \<Rightarrow> string" where
  "choice r options = options ! (r mod length options)"

definition replace_spintax :: "nat \<Rightarrow> string \<Rightarrow> string" where
  "replace_spintax r group1 = choice r (split_on (CHR ''|'') group1)"

text \<open>
  One \<^verbatim>\<open>re.sub\<close> over the text: the matches are found from the left and do not overlap;
  each is replaced by one of its options, every other character is kept. The skip
  counter is the number of characters of the last match still to be passed; the result
  carries the number of draws used so far.
\<close>

fun sub_from :: "(nat \<Rightarrow> nat) \<Rightarrow> nat \<Rightarrow> nat \<Rightarrow> string \<Rightarrow> string \<times> nat" where
  "sub_from rnd k n [] = ([], n)"
| "sub_from rnd (Suc k) n (c # cs) = sub_from rnd k n cs"
| "sub_from rnd 0 n (c # cs) =
     (case match_group (c # cs) of
        Some group1 \<Rightarrow>
          (case sub_from rnd (Suc (length group1)) (Suc n) cs of
             (out, n1) \<Rightarrow> (replace_spintax (rnd n) group1 @ out, n1))
      | None \<Rightarrow>
          (case sub_from rnd 0 n cs of (out, n1) \<Rightarrow> (c # out, n1)))"

definition re_sub :: "(nat \<Rightarrow> nat) \<Rightarrow> nat \<Rightarrow> string \<Rightarrow> string \<times> nat" where
  "re_sub rnd n text = sub_from rnd 0 n text"

text \<open>
  The loop \<^verbatim>\<open>while '{' in text and '|' in text and '}' in text\<close>. It may run forever,
  so it is a partial function: \<open>None\<close> is the loop that does not end.
\<close>

definition spintax_left :: "string \<Rightarrow> bool" where
  "spintax_left text =
     (CHR ''{'' \<in> set text \<and> CHR ''|'' \<in> set text \<and> CHR ''}'' \<in> set text)"

partial_function (option) spin_loop :: "(nat \<Rightarrow> nat) \<Rightarrow> nat \<Rightarrow> string \<Rightarrow> string option" where
  "spin_loop rnd n text =
     (if spintax_left text
      then spin_loop rnd (snd (re_sub rnd n text)) (fst (re_sub rnd n text))
      else Some text)"

declare spin_loop.simps [code]

definition process_spintax ::
  "(nat \<Rightarrow> nat) \<Rightarrow> string \<Rightarrow> (string \<times> string) list option \<Rightarrow> string option" where
  "process_spintax rnd text variables = spin_loop rnd 0 (replace_variables variables text)"

section \<open>Trust score (scoring.py, linkedin_auth.py)\<close>

text \<open>
  The scores are Python floats; they are rational numbers here, and every decimal
  constant of the source stands for the decimal it is written as, so that a score of
  the model is the exact value that the float of the source approximates. Prospects, signals and
  stored profiles are dictionaries with known keys: records whose optional keys are
  options. A signal or a profile that is \<open>None\<close> stands for what the source tests as
  false, \<^verbatim>\<open>None\<close> or the empty dictionary.
\<close>

record prospect =
  prospect_title :: "string option"
  prospect_email :: "string option"

record signal =
  signal_timestamp :: "string option"
  signal_match_score :: "rat option"

record linkedin_profile =
  profile_email :: "string option"
  firstName :: string
  lastName :: string
  headline :: string
  profilePicture :: "string option"

record trust_signals =
  has_profile :: bool
  completeness :: int
  headline_quality :: int
  professional_photo :: bool
  network_strength :: int

definition get_str :: "string option \<Rightarrow> string" where
  "get_str v = (case v of None \<Rightarrow> [] | Some s \<Rightarrow> s)"

definition truthy :: "string option \<Rightarrow> bool" where
  "truthy v = (case v of None \<Rightarrow> False | Some s \<Rightarrow> s \<noteq> [])"

text \<open>
  The random source is the sequence of raw draws. \<^verbatim>\<open>random.random()\<close> is a multiple of
  \<open>1 / 2 ^ 53\<close> below 1, and \<^verbatim>\<open>random.uniform(a, b)\<close> is \<open>a + (b - a) * random()\<close>.
\<close>

definition random_unit :: "nat \<Rightarrow> rat" where
  "random_unit r = of_nat (r mod 2 ^ 53) / 2 ^ 53"

definition uniform :: "rat \<Rightarrow> rat \<Rightarrow> nat \<Rightarrow> rat" where
  "uniform a b r = a + (b - a) * random_unit r"

text \<open>\<^verbatim>\<open>int(x)\<close> cuts the fraction off, towards zero.\<close>

definition py_int :: "rat \<Rightarrow> int" where
  "py_int x = (if 0 \<le> x then \<lfloor>x\<rfloor> else \<lceil>x\<rceil>)"

text \<open>
  \<^verbatim>\<open>round(x, 1)\<close> is the tenth nearest to the float \<open>x\<close>. The model computes the
  exact value; the float that the source has computed differs from it by the rounding
  errors of its operations. Where the exact value lies midway between two tenths, the
  float lies on either side of the middle, and the result of the source can be either
  neighbour: the parameter \<open>up\<close> says which one it is.
\<close>

definition py_round1 :: "bool \<Rightarrow> rat \<Rightarrow> rat" where
  "py_round1 up x =
     (let y = x * 10;
          f = \<lfloor>y\<rfloor>;
          d = y - of_int f
      in of_int (if d < 1 / 2 then f
                 else if 1 / 2 < d then f + 1
                 else if up then f + 1 else f) / 10)"

definition extract_trust_signals :: "linkedin_profile option \<Rightarrow> trust_signals" where
  "extract_trust_signals profile_data =
     (case profile_data of
        None \<Rightarrow> \<lparr> has_profile = False, completeness = 0, headline_quality = 0,
                  professional_photo = False, network_strength = 0 \<rparr>
      | Some pd \<Rightarrow>
          (let completeness_score = 0;
               completeness_score = (if firstName pd \<noteq> [] then completeness_score + 20
                                     else completeness_score);
               completeness_score = (if lastName pd \<noteq> [] then completeness_score + 20
                                     else completeness_score);
               completeness_score = (if truthy (profile_email pd) then completeness_score + 20
                                     else completeness_score);
               completeness_score = (if headline pd \<noteq> [] then completeness_score + 20
                                     else completeness_score);
               completeness_score = (if truthy (profilePicture pd) then completeness_score + 20
                                     else completeness_score);
               hl = headline pd;
               quality = 0;
               quality = (if hl \<noteq> [] \<and> length hl > 20 then quality + 30 else quality);
               quality = (if hl \<noteq> [] \<and> list_ex (\<lambda>keyword. str_in keyword (str_lower hl))
                               [''executive'', ''director'', ''manager'', ''vp'', ''president'',
                                ''chief'']
                          then quality + 40 else quality);
               quality = (if hl \<noteq> [] \<and> list_ex (\<lambda>keyword. str_in keyword (str_lower hl))
                               [''sap'', ''oracle'', ''dynamics'', ''salesforce'', ''qa'',
                                ''quality'']
                          then quality + 30 else quality)
           in \<lparr> has_profile = True, completeness = completeness_score,
                headline_quality = quality,
                professional_photo = truthy (profilePicture pd),
                network_strength = 0 \<rparr>))"

definition calculate_linkedin_trust_score :: "linkedin_profile option \<Rightarrow> int" where
  "calculate_linkedin_trust_score profile_data =
     (let signals = extract_trust_signals profile_data;
          score = 0;
          score = score + of_int (completeness signals) * (3 / 10);
          score = score + of_int (headline_quality signals) * (3 / 10);
          score = score + (if professional_photo signals then 100 else 0) * (2 / 10);
          score = score + of_int (network_strength signals) * (2 / 10)
      in min 100 (max 0 (py_int score)))"

definition common_keywords :: "string list" where
  "common_keywords = [''sap'', ''oracle'', ''dynamics'', ''erp'', ''crm'', ''quality'', ''qa'',
                      ''director'', ''manager'', ''vp'']"

text \<open>
  \<open>profiles\<close> is the stored profile dictionary that \<^verbatim>\<open>get_user_profile\<close> looks the user
  up in. The function uses the draws \<open>n\<close> and \<open>n + 1\<close> of the random source.
\<close>

definition calculate_relationship_score ::
  "(nat \<Rightarrow> nat) \<Rightarrow> nat \<Rightarrow> (string \<rightharpoonup> linkedin_profile) \<Rightarrow> prospect \<Rightarrow> string \<Rightarrow> rat" where
  "calculate_relationship_score source n stored p user_id =
     (let score = 3 / 10;
          profile = stored user_id;
          score =
            (case profile of
               None \<Rightarrow> score
             | Some lp \<Rightarrow>
                 (let linkedin_score = of_int (calculate_linkedin_trust_score profile) / 100;
                      score = score + linkedin_score * (25 / 100);
                      title = str_lower (get_str (prospect_title p));
                      user_headline = str_lower (headline lp);
                      prospect_keywords = length (filter (\<lambda>kw. str_in kw title) common_keywords);
                      user_keywords =
                        length (filter (\<lambda>kw. str_in kw user_headline) common_keywords)
                  in if prospect_keywords > 0 \<and> user_keywords > 0 then score + 15 / 100
                     else score));
          shared_connections = randint 0 5 (int (source n));
          score = (if shared_connections > 0
                   then score + (1 / 10) * of_int (min shared_connections 3) else score);
          score = (if str_in ''alumni'' (str_lower (get_str (prospect_title p)))
                   then score + 2 / 10 else score);
          score = (if random_unit (source (Suc n)) > 7 / 10 then score + 2 / 10 else score)
      in min score 1)"

text \<open>
  \<^verbatim>\<open>datetime.fromisoformat\<close> is a parameter: \<open>None\<close> where it raises, otherwise the time
  read, naive or with an offset. A naive \<^verbatim>\<open>now\<close> minus a time with an offset raises too,
  and the handler of the source catches every exception. \<^verbatim>\<open>timedelta.days\<close> is the
  number of whole days, rounded down.
\<close>

datatype stamp = Naive int | Aware int

definition day :: int where
  "day = 86400000000"

definition calculate_intent_freshness ::
  "(string \<Rightarrow> stamp option) \<Rightarrow> int \<Rightarrow> signal option \<Rightarrow> rat" where
  "calculate_intent_freshness parse current sig =
     (case sig of
        None \<Rightarrow> 2 / 10
      | Some s \<Rightarrow>
          (case parse (get_str (signal_timestamp s)) of
             None \<Rightarrow> 3 / 10
           | Some (Aware t) \<Rightarrow> 3 / 10
           | Some (Naive signal_time) \<Rightarrow>
               (let days_old = (current - signal_time) div day
                in if days_old \<le> 1 then 1
                   else if days_old \<le> 3 then 9 / 10
                   else if days_old \<le> 7 then 7 / 10
                   else if days_old \<le> 14 then 5 / 10
                   else if days_old \<le> 30 then 3 / 10
                   else 1 / 10)))"

definition calculate_story_quality :: "prospect \<Rightarrow> signal option \<Rightarrow> rat" where
  "calculate_story_quality p sig =
     (let score = 5 / 10;
          score = (case sig of
                     None \<Rightarrow> score
                   | Some s \<Rightarrow>
                       (let match_score = (case signal_match_score s of
                                             None \<Rightarrow> 5 / 10 | Some m \<Rightarrow> m)
                        in 3 / 10 + (7 / 10) * match_score));
          title = str_lower (get_str (prospect_title p));
          score = (if list_ex (\<lambda>keyword. str_in keyword title)
                        [''director'', ''vp'', ''head of'', ''manager'']
                   then score + 1 / 10 else score)
      in min score 1)"

definition free_domains :: "string list" where
  "free_domains = [''gmail.com'', ''yahoo.com'', ''hotmail.com'', ''outlook.com'']"

definition calculate_deliverability :: "prospect \<Rightarrow> rat" where
  "calculate_deliverability p =
     (let address = get_str (prospect_email p);
          domain = (if CHR ''@'' \<in> set address then split_on (CHR ''@'') address ! 1 else []);
          score = 9 / 10;
          score = (if domain \<in> set free_domains then score - 3 / 10 else score);
          local_part = (if CHR ''@'' \<in> set address then split_on (CHR ''@'') address ! 0
                        else []);
          score = (if list_ex (\<lambda>pattern. str_in pattern local_part)
                        [''info'', ''contact'', ''admin'', ''sales'']
                   then score - 2 / 10 else score)
      in max score (1 / 10))"

text \<open>
  The weighted composite of \<^verbatim>\<open>calculate_trustscore\<close>: the weighted sum of the five
  sub-scores, times 100, rounded to one decimal.
\<close>

definition weighted_sum :: "rat \<Rightarrow> rat \<Rightarrow> rat \<Rightarrow> rat \<Rightarrow> rat \<Rightarrow> rat" where
  "weighted_sum relationship_score intent_score story_score deliverability_score
       engagement_score =
     (25 / 100) * relationship_score + (25 / 100) * intent_score
       + (20 / 100) * story_score + (15 / 100) * deliverability_score
       + (15 / 100) * engagement_score"

definition weighted_total :: "bool \<Rightarrow> rat \<Rightarrow> rat \<Rightarrow> rat \<Rightarrow> rat \<Rightarrow> rat \<Rightarrow> rat" where
  "weighted_total up relationship_score intent_score story_score deliverability_score
       engagement_score =
     py_round1 up (100 * weighted_sum relationship_score intent_score story_score
                           deliverability_score engagement_score)"

text \<open>
  The environment of the scoring functions: the random source, the stored profiles, the
  parser of time stamps, the clock, and the side a tie of the final rounding falls to.
  \<^verbatim>\<open>calculate_trustscore\<close> uses the draws \<open>n\<close>, \<open>n + 1\<close> (relationship) and \<open>n + 2\<close>
  (engagement).
\<close>

record scoring_env =
  draws :: "nat \<Rightarrow> nat"
  stored_profiles :: "string \<rightharpoonup> linkedin_profile"
  fromisoformat :: "string \<Rightarrow> stamp option"
  clock_now :: int
  tie_up :: bool

definition calculate_trustscore ::
  "scoring_env \<Rightarrow> nat \<Rightarrow> prospect \<Rightarrow> string \<Rightarrow> signal option \<Rightarrow> rat" where
  "calculate_trustscore env n p user_id sig =
     (let relationship_score = calculate_relationship_score (draws env) n (stored_profiles env) p user_id;
          intent_score = calculate_intent_freshness (fromisoformat env) (clock_now env) sig;
          story_score = calculate_story_quality p sig;
          deliverability_score = calculate_deliverability p;
          engagement_score = uniform (3 / 10) (9 / 10) (draws env (n + 2))
      in weighted_total (tie_up env) relationship_score intent_score story_score
           deliverability_score engagement_score)"

record score_breakdown =
  relationship :: rat
  intent_freshness :: rat
  story_quality :: rat
  deliverability :: rat
  engagement :: rat
  total :: rat

text \<open>
  \<^verbatim>\<open>get_trust_components\<close> evaluates the entries of its dictionary in order: the
  relationship score takes the draws 0 and 1, the engagement entry the draw 2, and the
  call of \<^verbatim>\<open>calculate_trustscore\<close> for the total the draws 3, 4 and 5.
\<close>

definition get_trust_components ::
  "scoring_env \<Rightarrow> prospect \<Rightarrow> string \<Rightarrow> signal option \<Rightarrow> score_breakdown" where
  "get_trust_components env p user_id sig =
     \<lparr> relationship = calculate_relationship_score (draws env) 0 (stored_profiles env) p user_id,
       intent_freshness = calculate_intent_freshness (fromisoformat env) (clock_now env) sig,
       story_quality = calculate_story_quality p sig,
       deliverability = calculate_deliverability p,
       engagement = uniform (3 / 10) (9 / 10) (draws env 2),
       total = calculate_trustscore env 3 p user_id sig \<rparr>"

section \<open>Properties of the spam score\<close>

lemma caps_ratio_nonempty:
  "body \<noteq> [] \<Longrightarrow>
     caps_ratio body = Inr (of_nat (length (filter c_isupper body)) / of_nat (length body))"
  by (simp add: caps_ratio_def)

lemma check_spam_score_nonempty:
  "body \<noteq> [] \<Longrightarrow> \<exists>score. check_spam_score subject body = Inr score \<and> 0 \<le> score"
  by (simp add: check_spam_score_def caps_ratio_def body_checks_def Let_def)

text \<open>
  C3. The spam score is not total: on the empty body the capital ratio divides by the
  length zero, and the call ends with \<^verbatim>\<open>ZeroDivisionError\<close> instead of a score, whatever
  the subject is.
\<close>

theorem check_spam_score_empty_body:
  "check_spam_score subject '''' = Inl ZeroDivisionError"
  by (simp add: check_spam_score_def caps_ratio_def)

section \<open>Properties of enqueueing\<close>

lemma fst_queue_email:
  "fst (queue_email lib rd db u p s b sc) = new_email_id lib rd u p"
  by (simp add: queue_email_def Let_def)

lemma map_of_queue_email:
  "map_of (email_queue (snd (queue_email lib rd db u p s b sc))) =
     (map_of (email_queue db))
       (u \<mapsto> dict_get (email_queue db) u @
                 [email_entry rd (new_email_id lib rd u p) p s b sc])"
  by (auto simp: queue_email_def Let_def dict_get_def AList.update_conv' fun_eq_iff
           split: option.splits)

lemma history_queue_email:
  "email_history (snd (queue_email lib rd db u p s b sc)) = email_history db"
  by (simp add: queue_email_def Let_def)

lemma dict_get_queue_email:
  "dict_get (email_queue (snd (queue_email lib rd db u p s b sc))) v =
     (if v = u
      then dict_get (email_queue db) u @ [email_entry rd (new_email_id lib rd u p) p s b sc]
      else dict_get (email_queue db) v)"
  by (simp add: dict_get_def map_of_queue_email)

lemma randint_range: "a \<le> b \<Longrightarrow> a \<le> randint a b r \<and> randint a b r \<le> b"
  unfolding randint_def
  using pos_mod_bound [of "b - a + 1" r] pos_mod_sign [of "b - a + 1" r] by linarith

text \<open>
  C10. \<^verbatim>\<open>queue_email\<close> has no failing branch. It returns the new id, appends exactly one
  record, which carries that id, to the queue of the given user, leaves the queue of
  every other user and the whole history as they were, and checks for no duplicate: a
  second call for the same user and prospect appends a second record.
\<close>

theorem queue_email_frame:
  "fst (queue_email lib rd db u p s b sc) = new_email_id lib rd u p
   \<and> dict_get (email_queue (snd (queue_email lib rd db u p s b sc))) u =
       dict_get (email_queue db) u @ [email_entry rd (new_email_id lib rd u p) p s b sc]
   \<and> email_id (email_entry rd (new_email_id lib rd u p) p s b sc) =
       fst (queue_email lib rd db u p s b sc)
   \<and> (\<forall>v. v \<noteq> u \<longrightarrow>
         map_of (email_queue (snd (queue_email lib rd db u p s b sc))) v =
         map_of (email_queue db) v)
   \<and> email_history (snd (queue_email lib rd db u p s b sc)) = email_history db
   \<and> dict_get (email_queue (snd (queue_email lib rd2
         (snd (queue_email lib rd db u p s b sc)) u p s2 b2 sc2))) u =
       dict_get (email_queue db) u @
         [email_entry rd (new_email_id lib rd u p) p s b sc,
          email_entry rd2 (new_email_id lib rd2 u p) p s2 b2 sc2]"
  by (simp add: fst_queue_email dict_get_queue_email map_of_queue_email
        history_queue_email email_entry_def)

theorem queue_email_frame_witness:
  "dict_get (email_queue (snd (queue_email \<lparr>md5_hexdigest = (\<lambda>x. x), isoformat = (\<lambda>t. ''T'')\<rparr> \<lparr>now_id = 0, now_queued = 0, now_scheduled = 0, draw = 7\<rparr>
      \<lparr>email_queue = [(''bob'', [])], email_history = []\<rparr>
      ''ann'' ''p1'' ''Hello'' ''Body'' 10))) ''ann''
   = [email_entry \<lparr>now_id = 0, now_queued = 0, now_scheduled = 0, draw = 7\<rparr> ''annp1T'' ''p1'' ''Hello'' ''Body'' 10]
   \<and> ''bob'' \<noteq> ''ann''
   \<and> map_of (email_queue (snd (queue_email \<lparr>md5_hexdigest = (\<lambda>x. x), isoformat = (\<lambda>t. ''T'')\<rparr> \<lparr>now_id = 0, now_queued = 0, now_scheduled = 0, draw = 7\<rparr>
      \<lparr>email_queue = [(''bob'', [])], email_history = []\<rparr>
      ''ann'' ''p1'' ''Hello'' ''Body'' 10))) ''bob'' = Some []"
  using queue_email_frame [of "\<lparr>md5_hexdigest = (\<lambda>x. x), isoformat = (\<lambda>t. ''T'')\<rparr>" "\<lparr>now_id = 0, now_queued = 0, now_scheduled = 0, draw = 7\<rparr>"
      "\<lparr>email_queue = [(''bob'', [])], email_history = []\<rparr>"
      "''ann''" "''p1''" "''Hello''" "''Body''" 10]
  by (simp add: dict_get_def new_email_id_def)

text \<open>
  C9, as the code has it. The record that \<^verbatim>\<open>queue_email\<close> appends carries the returned
  id, which is the first eight hexadecimal digits of the MD5 digest of the user id, the
  prospect id and the ISO time of the call, written one after the other; its status is
  Queued, its attempts are 0, and it is scheduled a whole number of minutes between 5 and
  30 after the time of the call. Nothing makes the id unique.
\<close>

theorem queue_email_postcondition:
  "email_id (last (dict_get (email_queue (snd (queue_email lib rd db u p s b sc))) u)) =
       fst (queue_email lib rd db u p s b sc)
   \<and> fst (queue_email lib rd db u p s b sc) =
       take 8 (md5_hexdigest lib (u @ p @ isoformat lib (now_id rd)))
   \<and> status (last (dict_get (email_queue (snd (queue_email lib rd db u p s b sc))) u)) = Queued
   \<and> attempts (last (dict_get (email_queue (snd (queue_email lib rd db u p s b sc))) u)) = 0
   \<and> scheduled_for (last (dict_get (email_queue (snd (queue_email lib rd db u p s b sc))) u))
       = now_scheduled rd + minutes (randint 5 30 (draw rd))
   \<and> 5 \<le> randint 5 30 (draw rd) \<and> randint 5 30 (draw rd) \<le> 30
   \<and> now_scheduled rd + minutes 5
       \<le> scheduled_for (last (dict_get (email_queue (snd (queue_email lib rd db u p s b sc))) u))
   \<and> scheduled_for (last (dict_get (email_queue (snd (queue_email lib rd db u p s b sc))) u))
       \<le> now_scheduled rd + minutes 30"
  using randint_range [of 5 30 "draw rd"]
  by (simp add: fst_queue_email dict_get_queue_email email_entry_def new_email_id_def
        minutes_def)

text \<open>
  C9 as stated fails: two calls for the same user and prospect whose clock readings for
  the id agree return the same id, whatever the digest function is. The second call here
  runs on the store the first one left, with another subject and body.
\<close>

theorem queue_email_id_collision:
  "\<forall>lib. fst (queue_email lib \<lparr>now_id = 0, now_queued = 1, now_scheduled = 2, draw = 3\<rparr>
             \<lparr>email_queue = [], email_history = []\<rparr> ''ann'' ''p1'' ''Hello'' ''Body'' 10)
       = fst (queue_email lib \<lparr>now_id = 0, now_queued = 5, now_scheduled = 6, draw = 9\<rparr>
             (snd (queue_email lib \<lparr>now_id = 0, now_queued = 1, now_scheduled = 2, draw = 3\<rparr>
                \<lparr>email_queue = [], email_history = []\<rparr> ''ann'' ''p1'' ''Hello'' ''Body'' 10))
             ''ann'' ''p1'' ''Again'' ''Other'' 12)"
  by (simp add: fst_queue_email new_email_id_def)

section \<open>Properties of the gate\<close>



section \<open>Properties of the dispatch sweep\<close>

lemma process_email_terminal:
  "status e \<noteq> Queued \<Longrightarrow> process_email w ct u s e = (s, e)"
  by (simp add: process_email_def)

lemma process_email_attempts:
  "attempts (snd (process_email w ct u s e)) =
     attempts e + (if send_fails w ct s e then 1 else 0)"
  by (simp add: process_email_def send_fails_def Let_def)

lemma process_email_status:
  "status (snd (process_email w ct u s e)) =
     (if status e = Queued \<and> scheduled_for e \<le> ct
      then (if send_email_smtp w (calls s) then Sent
            else if attempts e + 1 \<ge> 3 then Failed else Queued)
      else status e)"
  by (simp add: process_email_def Let_def)

lemma process_email_retry:
  "send_fails w ct s e \<Longrightarrow> attempts e + 1 < 3 \<Longrightarrow>
     snd (process_email w ct u s e) =
       e\<lparr>attempts := attempts e + 1, scheduled_for := ct + minutes 60\<rparr>"
  by (simp add: process_email_def send_fails_def Let_def hours_def minutes_def)

lemma deliver_attempts_mono: "attempts e \<le> attempts (deliver vs e)"
proof (induction vs arbitrary: e)
  case Nil
  then show ?case by simp
next
  case (Cons v vs)
  obtain w ct u s where v: "v = (w, ct, u, s)" by (cases v) auto
  have "attempts e \<le> attempts (snd (process_email w ct u s e))"
    by (simp add: process_email_attempts)
  also have "\<dots> \<le> attempts (deliver vs (snd (process_email w ct u s e)))"
    by (rule Cons.IH)
  finally show ?case by (simp add: v)
qed

text \<open>
  The invariant of a record: it is Failed with three attempts, or it is not Failed and
  has fewer than three. Along any series of visits the attempts grow by the number of
  failed sends.
\<close>

lemma deliver_invariant:
  "(status e = Failed \<and> attempts e = 3) \<or> (status e \<noteq> Failed \<and> attempts e < 3) \<Longrightarrow>
     attempts (deliver vs e) = attempts e + failed_sends vs e
     \<and> ((status (deliver vs e) = Failed \<and> attempts (deliver vs e) = 3)
        \<or> (status (deliver vs e) \<noteq> Failed \<and> attempts (deliver vs e) < 3))"
proof (induction vs arbitrary: e)
  case Nil
  then show ?case by simp
next
  case (Cons v vs)
  obtain w ct u s where v: "v = (w, ct, u, s)" by (cases v) auto
  let ?e1 = "snd (process_email w ct u s e)"
  have step: "(status ?e1 = Failed \<and> attempts ?e1 = 3)
      \<or> (status ?e1 \<noteq> Failed \<and> attempts ?e1 < 3)"
    using Cons.prems
    by (auto simp: process_email_attempts process_email_status send_fails_def)
  have att: "attempts ?e1 = attempts e + (if send_fails w ct s e then 1 else 0)"
    by (simp add: process_email_attempts)
  have d: "deliver (v # vs) e = deliver vs ?e1"
    by (simp add: v)
  have f: "failed_sends (v # vs) e =
             (if send_fails w ct s e then 1 else 0) + failed_sends vs ?e1"
    by (simp add: v)
  from Cons.IH [OF step]
  have ih1: "attempts (deliver vs ?e1) = attempts ?e1 + failed_sends vs ?e1"
    and ih2: "(status (deliver vs ?e1) = Failed \<and> attempts (deliver vs ?e1) = 3)
        \<or> (status (deliver vs ?e1) \<noteq> Failed \<and> attempts (deliver vs ?e1) < 3)"
    by blast+
  have "attempts (deliver (v # vs) e) = attempts e + failed_sends (v # vs) e"
    unfolding d f using ih1 att by (cases "send_fails w ct s e") simp_all
  with ih2 show ?case
    unfolding d by blast
qed

text \<open>
  C4, as the code has it. A visit never lowers the attempts, and no series of visits
  does; a record that is Sent or Failed is left as it is; after a failed send that is
  not the third, the record is still Queued, has one attempt more and is scheduled 60
  minutes after \<^verbatim>\<open>current_time\<close>, the one clock reading of the sweep; and a record
  that starts Queued with no attempts has as many attempts as sends have failed, and is
  Failed exactly when three sends have failed.
\<close>

theorem delivery_state_machine:
  "attempts e \<le> attempts (snd (process_email w ct u s e))
   \<and> attempts e \<le> attempts (deliver vs e)
   \<and> (status e \<noteq> Queued \<longrightarrow> process_email w ct u s e = (s, e))
   \<and> (send_fails w ct s e \<and> attempts e + 1 < 3 \<longrightarrow>
        status (snd (process_email w ct u s e)) = Queued
        \<and> attempts (snd (process_email w ct u s e)) = attempts e + 1
        \<and> scheduled_for (snd (process_email w ct u s e)) = ct + minutes 60)
   \<and> (status e = Queued \<and> attempts e = 0 \<longrightarrow>
        attempts (deliver vs e) = failed_sends vs e
        \<and> (status (deliver vs e) = Failed \<longleftrightarrow> failed_sends vs e = 3))"
proof -
  have a: "attempts e \<le> attempts (snd (process_email w ct u s e))"
    by (simp add: process_email_attempts)
  have b: "attempts e \<le> attempts (deliver vs e)"
    by (rule deliver_attempts_mono)
  have c: "status e \<noteq> Queued \<longrightarrow> process_email w ct u s e = (s, e)"
    by (simp add: process_email_terminal)
  have d: "send_fails w ct s e \<and> attempts e + 1 < 3 \<longrightarrow>
        status (snd (process_email w ct u s e)) = Queued
        \<and> attempts (snd (process_email w ct u s e)) = attempts e + 1
        \<and> scheduled_for (snd (process_email w ct u s e)) = ct + minutes 60"
    by (auto simp: process_email_retry send_fails_def)
  have e: "status e = Queued \<and> attempts e = 0 \<longrightarrow>
        attempts (deliver vs e) = failed_sends vs e
        \<and> (status (deliver vs e) = Failed \<longleftrightarrow> failed_sends vs e = 3)"
  proof
    assume h: "status e = Queued \<and> attempts e = 0"
    then have "(status e = Failed \<and> attempts e = 3) \<or> (status e \<noteq> Failed \<and> attempts e < 3)"
      by simp
    from deliver_invariant [OF this, of vs] h show
      "attempts (deliver vs e) = failed_sends vs e
        \<and> (status (deliver vs e) = Failed \<longleftrightarrow> failed_sends vs e = 3)"
      by auto
  qed
  from a b c d e show ?thesis by blast
qed

theorem delivery_state_machine_witness:
  "status \<lparr>email_id = ''a1'', prospect_id = ''p1'', email_subject = ''One'',
          email_body = ''Body'', storyscore = 10, queued_at = 0, status = Queued,
          attempts = 0, scheduled_for = 0, sent_at = None\<rparr> = Queued
   \<and> attempts \<lparr>email_id = ''a1'', prospect_id = ''p1'', email_subject = ''One'',
          email_body = ''Body'', storyscore = 10, queued_at = 0, status = Queued,
          attempts = 0, scheduled_for = 0, sent_at = None\<rparr> = 0
   \<and> failed_sends
        [(\<lparr>smtp_user = ''me'', smtp_send = (\<lambda>n. False), pause_draw = (\<lambda>n. 0)\<rparr>, minutes 10, ''ann'',
          \<lparr>clock = minutes 10, calls = 0, emails_sent = 0, history = []\<rparr>),
         (\<lparr>smtp_user = ''me'', smtp_send = (\<lambda>n. False), pause_draw = (\<lambda>n. 0)\<rparr>, minutes 80, ''ann'',
          \<lparr>clock = minutes 80, calls = 0, emails_sent = 0, history = []\<rparr>),
         (\<lparr>smtp_user = ''me'', smtp_send = (\<lambda>n. False), pause_draw = (\<lambda>n. 0)\<rparr>, minutes 150, ''ann'',
          \<lparr>clock = minutes 150, calls = 0, emails_sent = 0, history = []\<rparr>)]
        \<lparr>email_id = ''a1'', prospect_id = ''p1'', email_subject = ''One'',
          email_body = ''Body'', storyscore = 10, queued_at = 0, status = Queued,
          attempts = 0, scheduled_for = 0, sent_at = None\<rparr> = 3
   \<and> status (deliver
        [(\<lparr>smtp_user = ''me'', smtp_send = (\<lambda>n. False), pause_draw = (\<lambda>n. 0)\<rparr>, minutes 10, ''ann'',
          \<lparr>clock = minutes 10, calls = 0, emails_sent = 0, history = []\<rparr>),
         (\<lparr>smtp_user = ''me'', smtp_send = (\<lambda>n. False), pause_draw = (\<lambda>n. 0)\<rparr>, minutes 80, ''ann'',
          \<lparr>clock = minutes 80, calls = 0, emails_sent = 0, history = []\<rparr>),
         (\<lparr>smtp_user = ''me'', smtp_send = (\<lambda>n. False), pause_draw = (\<lambda>n. 0)\<rparr>, minutes 150, ''ann'',
          \<lparr>clock = minutes 150, calls = 0, emails_sent = 0, history = []\<rparr>)]
        \<lparr>email_id = ''a1'', prospect_id = ''p1'', email_subject = ''One'',
          email_body = ''Body'', storyscore = 10, queued_at = 0, status = Queued,
          attempts = 0, scheduled_for = 0, sent_at = None\<rparr>) = Failed
   \<and> send_fails \<lparr>smtp_user = ''me'', smtp_send = (\<lambda>n. False), pause_draw = (\<lambda>n. 0)\<rparr> (minutes 10)
        \<lparr>clock = minutes 10, calls = 0, emails_sent = 0, history = []\<rparr>
        \<lparr>email_id = ''a1'', prospect_id = ''p1'', email_subject = ''One'',
          email_body = ''Body'', storyscore = 10, queued_at = 0, status = Queued,
          attempts = 0, scheduled_for = 0, sent_at = None\<rparr>
   \<and> scheduled_for (snd (process_email \<lparr>smtp_user = ''me'', smtp_send = (\<lambda>n. False), pause_draw = (\<lambda>n. 0)\<rparr> (minutes 10) ''ann''
        \<lparr>clock = minutes 10, calls = 0, emails_sent = 0, history = []\<rparr>
        \<lparr>email_id = ''a1'', prospect_id = ''p1'', email_subject = ''One'',
          email_body = ''Body'', storyscore = 10, queued_at = 0, status = Queued,
          attempts = 0, scheduled_for = 0, sent_at = None\<rparr>)) = minutes 70"
  using delivery_state_machine [of
        "\<lparr>email_id = ''a1'', prospect_id = ''p1'', email_subject = ''One'',
          email_body = ''Body'', storyscore = 10, queued_at = 0, status = Queued,
          attempts = 0, scheduled_for = 0, sent_at = None\<rparr>"
        "\<lparr>smtp_user = ''me'', smtp_send = (\<lambda>n. False), pause_draw = (\<lambda>n. 0)\<rparr>" "minutes 10" "''ann''"
        "\<lparr>clock = minutes 10, calls = 0, emails_sent = 0, history = []\<rparr>"
        "[(\<lparr>smtp_user = ''me'', smtp_send = (\<lambda>n. False), pause_draw = (\<lambda>n. 0)\<rparr>, minutes 10, ''ann'',
          \<lparr>clock = minutes 10, calls = 0, emails_sent = 0, history = []\<rparr>),
         (\<lparr>smtp_user = ''me'', smtp_send = (\<lambda>n. False), pause_draw = (\<lambda>n. 0)\<rparr>, minutes 80, ''ann'',
          \<lparr>clock = minutes 80, calls = 0, emails_sent = 0, history = []\<rparr>),
         (\<lparr>smtp_user = ''me'', smtp_send = (\<lambda>n. False), pause_draw = (\<lambda>n. 0)\<rparr>, minutes 150, ''ann'',
          \<lparr>clock = minutes 150, calls = 0, emails_sent = 0, history = []\<rparr>)]"]
  by (simp add: process_email_def send_email_smtp_def send_fails_def minutes_def hours_def
        Let_def)

text \<open>
  C4 as stated fails where a pause came before the failure. The first record of the
  sweep is sent, and the pause that follows moves the clock on by 45 seconds at least;
  the send of the second record then fails at that later time, and the record is
  scheduled 60 minutes after the start of the sweep, not 60 minutes after the failure.
\<close>

theorem retry_time_counterexample:
  "send_fails \<lparr>smtp_user = ''me'', smtp_send = (\<lambda>n. n = 0), pause_draw = (\<lambda>n. 0)\<rparr> 0
      (fst (process_email \<lparr>smtp_user = ''me'', smtp_send = (\<lambda>n. n = 0), pause_draw = (\<lambda>n. 0)\<rparr> 0 ''ann''
         \<lparr>clock = 0, calls = 0, emails_sent = 0, history = []\<rparr>
         \<lparr>email_id = ''a1'', prospect_id = ''p1'', email_subject = ''One'',
          email_body = ''Body'', storyscore = 10, queued_at = 0, status = Queued,
          attempts = 0, scheduled_for = 0, sent_at = None\<rparr>))
      \<lparr>email_id = ''b2'', prospect_id = ''p2'', email_subject = ''Two'',
          email_body = ''Body'', storyscore = 10, queued_at = 0, status = Queued,
          attempts = 0, scheduled_for = 0, sent_at = None\<rparr>
   \<and> clock (fst (process_email \<lparr>smtp_user = ''me'', smtp_send = (\<lambda>n. n = 0), pause_draw = (\<lambda>n. 0)\<rparr> 0 ''ann''
         \<lparr>clock = 0, calls = 0, emails_sent = 0, history = []\<rparr>
         \<lparr>email_id = ''a1'', prospect_id = ''p1'', email_subject = ''One'',
          email_body = ''Body'', storyscore = 10, queued_at = 0, status = Queued,
          attempts = 0, scheduled_for = 0, sent_at = None\<rparr>)) = 45000000
   \<and> snd (process_user_queue \<lparr>smtp_user = ''me'', smtp_send = (\<lambda>n. n = 0), pause_draw = (\<lambda>n. 0)\<rparr> 0 ''ann''
         \<lparr>clock = 0, calls = 0, emails_sent = 0, history = []\<rparr>
         [\<lparr>email_id = ''a1'', prospect_id = ''p1'', email_subject = ''One'',
          email_body = ''Body'', storyscore = 10, queued_at = 0, status = Queued,
          attempts = 0, scheduled_for = 0, sent_at = None\<rparr>,
          \<lparr>email_id = ''b2'', prospect_id = ''p2'', email_subject = ''Two'',
          email_body = ''Body'', storyscore = 10, queued_at = 0, status = Queued,
          attempts = 0, scheduled_for = 0, sent_at = None\<rparr>])
     = [\<lparr>email_id = ''a1'', prospect_id = ''p1'', email_subject = ''One'',
          email_body = ''Body'', storyscore = 10, queued_at = 0, status = Sent,
          attempts = 0, scheduled_for = 0, sent_at = Some 0\<rparr>,
        \<lparr>email_id = ''b2'', prospect_id = ''p2'', email_subject = ''Two'',
          email_body = ''Body'', storyscore = 10, queued_at = 0, status = Queued,
          attempts = 1, scheduled_for = 3600000000, sent_at = None\<rparr>]
   \<and> scheduled_for (snd (process_email \<lparr>smtp_user = ''me'', smtp_send = (\<lambda>n. n = 0), pause_draw = (\<lambda>n. 0)\<rparr> 0 ''ann''
         (fst (process_email \<lparr>smtp_user = ''me'', smtp_send = (\<lambda>n. n = 0), pause_draw = (\<lambda>n. 0)\<rparr> 0 ''ann''
            \<lparr>clock = 0, calls = 0, emails_sent = 0, history = []\<rparr>
            \<lparr>email_id = ''a1'', prospect_id = ''p1'', email_subject = ''One'',
          email_body = ''Body'', storyscore = 10, queued_at = 0, status = Queued,
          attempts = 0, scheduled_for = 0, sent_at = None\<rparr>))
         \<lparr>email_id = ''b2'', prospect_id = ''p2'', email_subject = ''Two'',
          email_body = ''Body'', storyscore = 10, queued_at = 0, status = Queued,
          attempts = 0, scheduled_for = 0, sent_at = None\<rparr>))
       \<noteq> clock (fst (process_email \<lparr>smtp_user = ''me'', smtp_send = (\<lambda>n. n = 0), pause_draw = (\<lambda>n. 0)\<rparr> 0 ''ann''
            \<lparr>clock = 0, calls = 0, emails_sent = 0, history = []\<rparr>
            \<lparr>email_id = ''a1'', prospect_id = ''p1'', email_subject = ''One'',
          email_body = ''Body'', storyscore = 10, queued_at = 0, status = Queued,
          attempts = 0, scheduled_for = 0, sent_at = None\<rparr>)) + minutes 60"
  by (simp add: process_email_def send_email_smtp_def send_fails_def uniform_pause_def
        minutes_def hours_def Let_def)

text \<open>
  C1. A record whose third send fails is lost. The record is enqueued, and three sweeps
  find it due while the transport fails: the first two reschedule it, the third sets it
  to Failed, and the clean-up then drops it from the queue although nothing has put it
  into the history. After the third sweep it is in neither store.
\<close>

theorem third_failure_lost:
  "snd (process_queue \<lparr>smtp_user = ''me'', smtp_send = (\<lambda>n. False), pause_draw = (\<lambda>n. 0)\<rparr>
         (minutes 150)
         (snd (process_queue \<lparr>smtp_user = ''me'', smtp_send = (\<lambda>n. False), pause_draw = (\<lambda>n. 0)\<rparr>
            (minutes 80)
            (snd (process_queue \<lparr>smtp_user = ''me'', smtp_send = (\<lambda>n. False), pause_draw = (\<lambda>n. 0)\<rparr>
               (minutes 10)
               \<lparr>email_queue = [(''ann'',
                   [\<lparr>email_id = ''a1b2c3d4'', prospect_id = ''p1'', email_subject = ''Hello'',
          email_body = ''Body'', storyscore = 10, queued_at = 0, status = Queued,
          attempts = 0, scheduled_for = minutes 5, sent_at = None\<rparr>])],
                 email_history = []\<rparr>)))))
   = \<lparr>email_queue = [(''ann'', [])], email_history = []\<rparr>"
  by (simp add: process_queue_def process_email_def send_email_smtp_def clean_up_def
        minutes_def hours_def Let_def)

section \<open>Properties of template expansion\<close>

lemma str_in_Nil: "str_in [] s"
  by (cases s) simp_all

lemma replace_from_absent: "\<not> str_in old s \<Longrightarrow> replace_from 0 old new s = s"
  by (induction s) auto

lemma str_replace_absent: "\<not> str_in old s \<Longrightarrow> str_replace s old new = s"
  using str_in_Nil [of s] by (auto simp: str_replace_def replace_from_absent)

lemma startswith_append: "startswith (p @ s) p"
  by (induction p) auto

lemma replace_from_drop: "replace_from (length p) old new (p @ s) = replace_from 0 old new s"
  by (induction p) auto

lemma replace_from_token:
  "replace_from 0 (token k) new (token k @ b) = new @ replace_from 0 (token k) new b"
proof -
  have "replace_from 0 (token k) new (token k @ b) =
          new @ replace_from (length (k @ ''}'')) (token k) new ((k @ ''}'') @ b)"
    using startswith_append [of "k @ ''}''" b] by (simp add: token_def)
  then show ?thesis
    by (simp only: replace_from_drop)
qed

lemma startswith_append_cases:
  "startswith (s @ r) t \<Longrightarrow>
     startswith s t \<or> (\<exists>u. t = s @ u \<and> u \<noteq> [] \<and> startswith r u)"
proof (induction s arbitrary: t)
  case Nil
  then show ?case by (cases t) auto
next
  case (Cons c cs)
  show ?case
  proof (cases t)
    case Nil
    then show ?thesis by simp
  next
    case (Cons d ds)
    with Cons.prems have cd: "c = d" and rest: "startswith (cs @ r) ds"
      by simp_all
    from Cons.IH [OF rest] show ?thesis
      using cd Cons by auto
  qed
qed

lemma startswith_hd: "startswith r u \<Longrightarrow> u \<noteq> [] \<Longrightarrow> r \<noteq> [] \<and> hd r = hd u"
  by (cases r; cases u) auto

text \<open>
  With no opening brace in the name, an occurrence of the token cannot begin in a segment
  and end in the token that follows it.
\<close>

lemma no_straddle:
  assumes k: "CHR ''{'' \<notin> set k"
    and s: "\<not> startswith (c # cs) (token k)"
    and r: "rest = [] \<or> hd rest = CHR ''{''"
  shows "\<not> startswith ((c # cs) @ rest) (token k)"
proof
  assume "startswith ((c # cs) @ rest) (token k)"
  from startswith_append_cases [OF this] s
  obtain u where t: "token k = (c # cs) @ u" and u: "u \<noteq> []" and ru: "startswith rest u"
    by blast
  from startswith_hd [OF ru u] have ne: "rest \<noteq> []" and hd: "hd rest = hd u"
    by simp_all
  from t have "k @ ''}'' = cs @ u"
    by (simp add: token_def)
  then have "set u \<subseteq> set (k @ ''}'')"
    by (metis set_append Un_upper2)
  with u have "hd u \<in> set (k @ ''}'')"
    by (meson hd_in_set subsetD)
  with k have "hd u \<noteq> CHR ''{''"
    by auto
  with r ne hd show False
    by simp
qed

lemma skip_segment:
  assumes k: "CHR ''{'' \<notin> set k"
    and r: "rest = [] \<or> hd rest = CHR ''{''"
  shows "\<not> str_in (token k) seg \<Longrightarrow>
           replace_from 0 (token k) v (seg @ rest) = seg @ replace_from 0 (token k) v rest"
proof (induction seg)
  case Nil
  then show ?case by simp
next
  case (Cons c cs)
  then have a: "\<not> startswith (c # cs) (token k)" and b: "\<not> str_in (token k) cs"
    by simp_all
  from no_straddle [OF k a r] have "\<not> startswith (c # cs @ rest) (token k)"
    by simp
  then show ?case
    using Cons.IH [OF b] by simp
qed

text \<open>
  One pass over a pattern: every occurrence of the token is replaced, and the value that
  takes its place is not looked into.
\<close>

lemma replace_from_join:
  assumes k: "CHR ''{'' \<notin> set k"
  shows "list_all (\<lambda>seg. \<not> str_in (token k) seg) segs \<Longrightarrow>
           replace_from 0 (token k) v (join (token k) segs) = join v segs"
proof (induction "token k" segs rule: join.induct)
  case 1
  then show ?case by simp
next
  case (2 s)
  then show ?case by (simp add: replace_from_absent)
next
  case (3 s t ss)
  then have s: "\<not> str_in (token k) s"
    and rest: "list_all (\<lambda>seg. \<not> str_in (token k) seg) (t # ss)"
    by simp_all
  have h: "token k @ join (token k) (t # ss) = []
      \<or> hd (token k @ join (token k) (t # ss)) = CHR ''{''"
    by (simp add: token_def)
  have "replace_from 0 (token k) v (join (token k) (s # t # ss)) =
          s @ replace_from 0 (token k) v (token k @ join (token k) (t # ss))"
    using skip_segment [OF k h s] by simp
  also have "\<dots> = s @ v @ replace_from 0 (token k) v (join (token k) (t # ss))"
    by (simp only: replace_from_token)
  also have "\<dots> = s @ v @ join v (t # ss)"
    using "3.hyps" [OF rest] by simp
  finally show ?case by simp
qed

lemma str_replace_join:
  assumes "CHR ''{'' \<notin> set k" and "list_all (\<lambda>seg. \<not> str_in (token k) seg) segs"
  shows "str_replace (join (token k) segs) (token k) v = join v segs"
proof -
  have "token k \<noteq> []" by (simp add: token_def)
  then show ?thesis
    using replace_from_join [OF assms] by (simp add: str_replace_def)
qed

lemma fold_replace_absent:
  "list_all (\<lambda>(key, v). \<not> str_in (token key) t) items \<Longrightarrow>
     fold (\<lambda>(key, v) t. str_replace t (token key) v) items t = t"
  by (induction items) (auto simp: str_replace_absent)

lemma replace_variables_fold:
  "replace_variables (Some items) t = fold (\<lambda>(key, v) t. str_replace t (token key) v) items t"
  by (simp add: replace_variables_def)

text \<open>
  C6, as the code has it. The variables are substituted one after the other, in the
  order of the dictionary, each by one literal pass over the text as the passes before
  it left it. Take a variable \<open>k\<close> with no opening brace in its name and a pattern in
  which its token occurs between the segments \<open>segs\<close>, and let no token of a variable
  before \<open>k\<close> occur in the pattern. Then the result is what the variables after \<open>k\<close> make
  of the pattern with the value in the place of every token of \<open>k\<close>: the passes up to
  that of \<open>k\<close> leave the value as it is, even where it holds the token of \<open>k\<close> or of an
  earlier variable, and the later passes run over the value as over the rest of the
  text. So the value comes out verbatim where no later token occurs in the substituted
  text, and a value that is the token of the next variable comes out as the value of
  that variable.
\<close>

theorem replace_variables_in_order:
  assumes pre: "list_all (\<lambda>(key, x). \<not> str_in (token key) (join (token k) segs)) pre"
    and k: "CHR ''{'' \<notin> set k"
    and segs: "list_all (\<lambda>seg. \<not> str_in (token k) seg) segs"
  shows "replace_variables (Some (pre @ (k, v) # post)) (join (token k) segs) =
           replace_variables (Some post) (join v segs)
     \<and> (list_all (\<lambda>(key, x). \<not> str_in (token key) (join v segs)) post \<longrightarrow>
          replace_variables (Some (pre @ (k, v) # post)) (join (token k) segs) = join v segs)
     \<and> (CHR ''{'' \<notin> set k2 \<and> list_all (\<lambda>seg. \<not> str_in (token k2) seg) segs \<longrightarrow>
          replace_variables (Some (pre @ [(k, token k2), (k2, v2)])) (join (token k) segs) =
            join v2 segs)"
proof -
  have main: "replace_variables (Some (pre @ (k, w) # rest)) (join (token k) segs) =
           replace_variables (Some rest) (join w segs)" for w rest
    by (simp add: replace_variables_fold fold_replace_absent [OF pre]
          str_replace_join [OF k segs])
  have verbatim: "replace_variables (Some (pre @ (k, v) # post)) (join (token k) segs) =
      join v segs"
    if h: "list_all (\<lambda>(key, x). \<not> str_in (token key) (join v segs)) post"
  proof -
    have "replace_variables (Some post) (join v segs) = join v segs"
      using h by (simp add: replace_variables_fold fold_replace_absent)
    then show ?thesis
      by (simp only: main)
  qed
  have later: "replace_variables (Some (pre @ [(k, token k2), (k2, v2)]))
      (join (token k) segs) = join v2 segs"
    if h: "CHR ''{'' \<notin> set k2" "list_all (\<lambda>seg. \<not> str_in (token k2) seg) segs"
  proof -
    have "replace_variables (Some [(k2, v2)]) (join (token k2) segs) = join v2 segs"
      using str_replace_join [OF h] by (simp add: replace_variables_fold)
    then show ?thesis
      by (simp only: main)
  qed
  from main [of v post] verbatim later show ?thesis
    by blast
qed

theorem replace_variables_in_order_witness:
  "replace_variables
     (Some ([(''x'', ''X'')] @ (''name'', ''{name} {x} {y}'') # [(''y'', ''Y'')]))
     (join (token ''name'') [''Hi '', '' and '', ''!''])
   = ''Hi {name} {x} Y and {name} {x} Y!''
   \<and> join (token ''name'') [''Hi '', '' and '', ''!''] = ''Hi {name} and {name}!''"
proof -
  have pre: "list_all (\<lambda>(key, x). \<not> str_in (token key)
      (join (token ''name'') [''Hi '', '' and '', ''!''])) [(''x'', ''X'')]"
    by (simp add: token_def)
  have k: "CHR ''{'' \<notin> set ''name''"
    by simp
  have segs: "list_all (\<lambda>seg. \<not> str_in (token ''name'') seg) [''Hi '', '' and '', ''!'']"
    by (simp add: token_def)
  from replace_variables_in_order [OF pre k segs, of "''{name} {x} {y}''" "[(''y'', ''Y'')]"]
  have "replace_variables
     (Some ([(''x'', ''X'')] @ (''name'', ''{name} {x} {y}'') # [(''y'', ''Y'')]))
     (join (token ''name'') [''Hi '', '' and '', ''!''])
     = replace_variables (Some [(''y'', ''Y'')])
         (join ''{name} {x} {y}'' [''Hi '', '' and '', ''!''])"
    by blast
  also have "\<dots> = ''Hi {name} {x} Y and {name} {x} Y!''"
    by code_simp
  finally show ?thesis
    by (simp add: token_def)
qed

text \<open>
  C6 as stated fails: the value of \<open>a\<close> holds the token of \<open>b\<close>, which comes later in the
  dictionary; the pass for \<open>b\<close> finds it in the substituted text and replaces it, so the
  value does not come out as it was given.
\<close>

theorem substitution_rescans_counterexample:
  "process_spintax (\<lambda>n. 0) ''{a}'' (Some [(''a'', ''{b}''), (''b'', ''X'')]) = Some ''X''
   \<and> process_spintax (\<lambda>n. 0) ''{a}'' (Some [(''a'', ''{b}''), (''b'', ''X'')]) \<noteq> Some ''{b}''"
  by code_simp

text \<open>
  When the loop ends, the text has lost a brace or every bar, so that no alternative
  group is left in it.
\<close>

lemma spin_loop_result:
  assumes "spin_loop rnd n t = Some out"
  shows "\<not> spintax_left out"
proof (rule spin_loop.raw_induct [where P = "\<lambda>rnd n t out. \<not> spintax_left out", OF _ assms])
  fix loop :: "(nat \<Rightarrow> nat) \<Rightarrow> nat \<Rightarrow> string \<Rightarrow> string option" and rnd n t y
  assume ih: "\<And>rnd n t y. loop rnd n t = Some y \<Longrightarrow> \<not> spintax_left y"
    and eq: "(if spintax_left t
              then loop rnd (snd (re_sub rnd n t)) (fst (re_sub rnd n t))
              else Some t) = Some y"
  show "\<not> spintax_left y"
  proof (cases "spintax_left t")
    case True
    with eq have "loop rnd (snd (re_sub rnd n t)) (fst (re_sub rnd n t)) = Some y"
      by simp
    then show ?thesis by (rule ih)
  next
    case False
    with eq show ?thesis by simp
  qed
qed

lemma process_spintax_example:
  "process_spintax (\<lambda>n. n) ''Hi {name}, {glad|happy} to {a|{b|c}} x''
     (Some [(''name'', ''Alice'')]) = Some ''Hi Alice, glad to a x''"
  by code_simp

text \<open>
  A text that has both braces and a bar but no alternative group: the substitution finds
  no match and gives the text back, and the test of the loop holds again.
\<close>

lemma stuck_step: "re_sub rnd n ''{word} a|b'' = (''{word} a|b'', n)"
  by (simp add: re_sub_def match_group_def is_brace_def)

lemma stuck_left: "spintax_left ''{word} a|b''"
  by (simp add: spintax_left_def)

lemma spin_loop_not_stuck:
  assumes "spin_loop rnd n t = Some out"
  shows "t \<noteq> ''{word} a|b''"
proof (rule spin_loop.raw_induct [where P = "\<lambda>rnd n t out. t \<noteq> ''{word} a|b''", OF _ assms])
  fix loop :: "(nat \<Rightarrow> nat) \<Rightarrow> nat \<Rightarrow> string \<Rightarrow> string option" and rnd n t y
  assume ih: "\<And>rnd n t y. loop rnd n t = Some y \<Longrightarrow> t \<noteq> ''{word} a|b''"
    and eq: "(if spintax_left t
              then loop rnd (snd (re_sub rnd n t)) (fst (re_sub rnd n t))
              else Some t) = Some y"
  show "t \<noteq> ''{word} a|b''"
  proof
    assume "t = ''{word} a|b''"
    with eq have "loop rnd n ''{word} a|b'' = Some y"
      by (simp add: stuck_left stuck_step)
    from ih [OF this] show False by simp
  qed
qed

lemma spin_loop_stuck: "spin_loop rnd n ''{word} a|b'' = None"
proof (cases "spin_loop rnd n ''{word} a|b''")
  case None
  then show ?thesis .
next
  case (Some y)
  from spin_loop_not_stuck [OF Some] show ?thesis by simp
qed

text \<open>
  C2. Expansion does not always end. The pattern holds a single-option token and, outside
  any braces, a bar; with no variables given the loop test holds, no group matches, and
  the loop never ends, whatever the random source is.
\<close>

theorem process_spintax_hangs: "process_spintax rnd ''{word} a|b'' None = None"
  by (simp add: process_spintax_def replace_variables_def spin_loop_stuck)

section \<open>Properties of the trust score\<close>





















text \<open>
  The entry \<^verbatim>\<open>total\<close> of the breakdown comes from a second computation with draws of
  its own. Where the draws differ, so does the engagement behind the total: the entry
  draws 0.3, the total is computed with 0.6 and is 45, and the returned components give
  40.5.
\<close>

lemma trust_total_second_draw:
  "total (get_trust_components
       \<lparr>draws = (\<lambda>n. if n = 5 then 2 ^ 52 else 0), stored_profiles = Map.empty,
         fromisoformat = (\<lambda>x. None), clock_now = 0, tie_up = False\<rparr>
       \<lparr>prospect_title = None, prospect_email = None\<rparr> ''rep'' None) = 45
   \<and> engagement (get_trust_components
       \<lparr>draws = (\<lambda>n. if n = 5 then 2 ^ 52 else 0), stored_profiles = Map.empty,
         fromisoformat = (\<lambda>x. None), clock_now = 0, tie_up = False\<rparr>
       \<lparr>prospect_title = None, prospect_email = None\<rparr> ''rep'' None) = 3 / 10
   \<and> weighted_total False (3 / 10) (2 / 10) (5 / 10) (9 / 10) (3 / 10) = 81 / 2"
  by (simp add: get_trust_components_def calculate_trustscore_def weighted_total_def
      weighted_sum_def calculate_relationship_score_def calculate_intent_freshness_def
      calculate_story_quality_def calculate_deliverability_def uniform_def random_unit_def
      randint_def py_round1_def get_str_def str_lower_def free_domains_def Let_def)

end
